theory Spec2Isabelle
  imports Complex_Main
begin

section \<open>Strings\<close>

text \<open>
  Go strings are byte sequences; they are modelled as \<^typ>\<open>string\<close> (a list of
  8-bit characters), so \<open>len(s)\<close> is \<^term>\<open>length s\<close>.  The helpers below are the
  functions of Go's \<open>strings\<close> package that the analyzer and the router call, on
  ASCII text: \<open>ToLower\<close> maps \<open>A\<close>..\<open>Z\<close> to \<open>a\<close>..\<open>z\<close> and leaves every other byte
  alone, and the white space of \<open>Fields\<close> is tab, line feed, vertical tab, form
  feed, carriage return and space.
\<close>

definition lower_char :: "char \<Rightarrow> char" where
  "lower_char c =
     (let n = (of_char c :: nat) in if 65 \<le> n \<and> n \<le> 90 then char_of (n + 32) else c)"

definition ToLower :: "string \<Rightarrow> string" where
  "ToLower s = map lower_char s"

fun HasPrefix :: "string \<Rightarrow> string \<Rightarrow> bool" where
  "HasPrefix s [] = True"
| "HasPrefix [] (p # ps) = False"
| "HasPrefix (c # cs) (p # ps) = (c = p \<and> HasPrefix cs ps)"

fun Contains :: "string \<Rightarrow> string \<Rightarrow> bool" where
  "Contains [] sub = (sub = [])"
| "Contains (c # cs) sub = (HasPrefix (c # cs) sub \<or> Contains cs sub)"

definition isSpace :: "char \<Rightarrow> bool" where
  "isSpace c = (let n = (of_char c :: nat) in (9 \<le> n \<and> n \<le> 13) \<or> n = 32)"

text \<open>\<open>strings.Fields\<close>: the maximal runs of non-space bytes, in order.\<close>

fun fields_from :: "string \<Rightarrow> string \<Rightarrow> string list" where
  "fields_from cur [] = (if cur = [] then [] else [cur])"
| "fields_from cur (c # cs) =
     (if isSpace c then (if cur = [] then fields_from [] cs else cur # fields_from [] cs)
      else fields_from (cur @ [c]) cs)"

definition Fields :: "string \<Rightarrow> string list" where
  "Fields s = fields_from [] s"

subsection \<open>The numbered-list pattern\<close>

text \<open>
  \<open>regexp.MustCompile(`\d+\.\s+\w+`).FindAllString(s, -1)\<close>: the successive
  non-overlapping leftmost matches of one or more digits, a dot, one or more white-space
  bytes (\<open>\s\<close> is tab, line feed, form feed, carriage return, space) and one or more
  word bytes.  No class overlaps the byte that must follow it, so the match starting
  at a position is unique and takes each run whole.  \<open>numbered_match_len s\<close> is the
  length of the match that starts at the head of \<open>s\<close>, if there is one.
\<close>

definition isDigit :: "char \<Rightarrow> bool" where
  "isDigit c = (let n = (of_char c :: nat) in 48 \<le> n \<and> n \<le> 57)"

definition isReSpace :: "char \<Rightarrow> bool" where
  "isReSpace c = (let n = (of_char c :: nat) in n = 9 \<or> n = 10 \<or> n = 12 \<or> n = 13 \<or> n = 32)"

definition isWord :: "char \<Rightarrow> bool" where
  "isWord c =
     (let n = (of_char c :: nat)
      in (48 \<le> n \<and> n \<le> 57) \<or> (65 \<le> n \<and> n \<le> 90) \<or> n = 95 \<or> (97 \<le> n \<and> n \<le> 122))"

definition numbered_match_len :: "string \<Rightarrow> nat option" where
  "numbered_match_len s =
     (let ds = takeWhile isDigit s; r1 = dropWhile isDigit s
      in if ds = [] then None
         else case r1 of
           [] \<Rightarrow> None
         | d # r2 \<Rightarrow>
             if d \<noteq> CHR ''.'' then None
             else let ws = takeWhile isReSpace r2; r3 = dropWhile isReSpace r2
                  in if ws = [] then None
                     else let wd = takeWhile isWord r3
                          in if wd = [] then None
                             else Some (length ds + 1 + length ws + length wd))"

text \<open>
  The scan of \<open>FindAllString\<close>: \<open>skip\<close> counts the bytes of the current match still
  to be passed over; at any other position a match is tried, and the scan moves on by
  one byte when there is none.  The result is the number of matches.
\<close>

fun count_numbered :: "nat \<Rightarrow> string \<Rightarrow> nat" where
  "count_numbered skip [] = 0"
| "count_numbered (Suc k) (c # cs) = count_numbered k cs"
| "count_numbered 0 (c # cs) =
     (case numbered_match_len (c # cs) of
        Some n \<Rightarrow> Suc (count_numbered (n - 1) cs)
      | None \<Rightarrow> count_numbered 0 cs)"

section \<open>Task analyzer (src/internal/backend/analyzer.go)\<close>

text \<open>
  Go declares \<open>type ModelTier int\<close> with the constants \<open>TierSimple = iota\<close>, ...; a
  tier is an integer here too, so that every value a caller can pass is covered and
  \<open>minTier - 1\<close>, \<open>cap.Tier >= minTier\<close> are the source's arithmetic.
\<close>

type_synonym ModelTier = int

definition TierSimple :: ModelTier where "TierSimple = 0"
definition TierModerate :: ModelTier where "TierModerate = 1"
definition TierComplex :: ModelTier where "TierComplex = 2"
definition TierCLI :: ModelTier where "TierCLI = 3"

lemmas tier_defs = TierSimple_def TierModerate_def TierComplex_def TierCLI_def

record TaskComplexity =
  Score :: int
  MinTier :: ModelTier
  RequiresToolUse :: bool
  Signals :: "string list"

definition toolPatterns :: "string list" where
  "toolPatterns =
     [''create file'', ''create a file'', ''write to file'', ''edit file'', ''modify file'',
      ''delete file'', ''run test'', ''run the test'', ''execute command'', ''git commit'',
      ''git push'', ''git pull'', ''npm install'', ''npm run'', ''pip install'', ''make build'',
      ''deploy to'', ''restart service'', ''ssh into'', ''docker build'', ''docker run'',
      ''docker compose'', ''kubectl apply'', ''kubectl create'']"

text \<open>The loop of \<open>requiresToolUse\<close> returns true at the first pattern the text contains.\<close>

fun any_contained :: "string \<Rightarrow> string list \<Rightarrow> bool" where
  "any_contained text [] = False"
| "any_contained text (p # ps) = (if Contains text p then True else any_contained text ps)"

definition requiresToolUse :: "string \<Rightarrow> bool" where
  "requiresToolUse text = any_contained text toolPatterns"

definition scoreToTier :: "int \<Rightarrow> ModelTier" where
  "scoreToTier score =
     (if score < 25 then TierSimple else if score < 50 then TierModerate else TierComplex)"

text \<open>
  The body of \<open>Analyze\<close> threads \<open>score\<close> and \<open>result.Signals\<close> through its blocks;
  each block is a function on that pair.  Go ranges over the map \<open>complexPatterns\<close>
  in an unspecified order: the sum does not depend on it, and the \<open>complex:\<close> signals
  are listed here in the order of the map literal.
\<close>

type_synonym scoring = "int \<times> string list"

definition lengthBlock :: "int \<Rightarrow> scoring \<Rightarrow> scoring" where
  "lengthBlock wordCount = (\<lambda>(score, sigs).
     if wordCount > 200 then (score + 25, sigs @ [''long-description''])
     else if wordCount > 100 then (score + 15, sigs @ [''medium-description''])
     else if wordCount > 50 then (score + 5, sigs)
     else (score, sigs))"

definition complexPatterns :: "(string \<times> int) list" where
  "complexPatterns =
     [(''implement'', 30), (''refactor'', 30), (''architect'', 40), (''design'', 25),
      (''debug'', 20), (''optimize'', 20), (''migrate'', 25), (''integrate'', 20),
      (''multi-step'', 20), (''comprehensive'', 15)]"

fun complexBlock :: "string \<Rightarrow> (string \<times> int) list \<Rightarrow> scoring \<Rightarrow> scoring" where
  "complexBlock combined [] acc = acc"
| "complexBlock combined ((pattern, points) # rest) (score, sigs) =
     (if Contains combined pattern
      then complexBlock combined rest (score + points, sigs @ [''complex:'' @ pattern])
      else complexBlock combined rest (score, sigs))"

definition multiStepPatterns :: "string list" where
  "multiStepPatterns =
     [''and then'', ''after that'', ''first,'', ''second,'', ''finally,'', ''step 1'', ''step 2'']"

definition multiStepBlock :: "string \<Rightarrow> scoring \<Rightarrow> scoring" where
  "multiStepBlock combined = (\<lambda>(score, sigs).
     if any_contained combined multiStepPatterns then (score + 25, sigs @ [''multi-step''])
     else (score, sigs))"

definition numberedBlock :: "string \<Rightarrow> scoring \<Rightarrow> scoring" where
  "numberedBlock combined = (\<lambda>(score, sigs).
     if count_numbered 0 combined > 2 then (score + 10, sigs @ [''numbered-list''])
     else (score, sigs))"

definition simplePatterns :: "string list" where
  "simplePatterns =
     [''summarize'', ''explain'', ''what is'', ''list'', ''format'', ''convert'', ''translate'',
      ''classify'', ''categorize'']"

text \<open>The loop over \<open>simplePatterns\<close> breaks at the first pattern found.\<close>

fun simpleBlock :: "string \<Rightarrow> string list \<Rightarrow> scoring \<Rightarrow> scoring" where
  "simpleBlock combined [] acc = acc"
| "simpleBlock combined (pattern # rest) (score, sigs) =
     (if Contains combined pattern then (score - 10, sigs @ [''simple:'' @ pattern])
      else simpleBlock combined rest (score, sigs))"

text \<open>The two cases of the \<open>switch label\<close> in the loop over the labels.\<close>

definition isCheapLabel :: "string \<Rightarrow> bool" where
  "isCheapLabel label = (label = ''tier:fast'' \<or> label = ''tier:cheap'')"

definition isQualityLabel :: "string \<Rightarrow> bool" where
  "isQualityLabel label = (label = ''tier:quality'' \<or> label = ''tier:powerful'')"

fun labelBlock :: "string list \<Rightarrow> scoring \<Rightarrow> scoring" where
  "labelBlock [] acc = acc"
| "labelBlock (label # rest) (score, sigs) =
     (if isCheapLabel label
      then labelBlock rest (min score 30, sigs @ [''user-hint:cheap''])
      else if isQualityLabel label
      then labelBlock rest (max score 60, sigs @ [''user-hint:quality''])
      else labelBlock rest (score, sigs))"

definition clampScore :: "int \<Rightarrow> int" where
  "clampScore score =
     (let s1 = (if score < 0 then 0 else score) in if s1 > 100 then 100 else s1)"

definition Analyze :: "string \<Rightarrow> string \<Rightarrow> string list \<Rightarrow> TaskComplexity" where
  "Analyze title description labels =
     (let combined = ToLower (title @ '' '' @ description)
      in if requiresToolUse combined
         then \<lparr>Score = 100, MinTier = TierCLI, RequiresToolUse = True,
               Signals = [''requires-tool-use'']\<rparr>
         else
           let wordCount = int (length (Fields combined));
               acc = labelBlock labels
                       (simpleBlock combined simplePatterns
                         (numberedBlock combined
                           (multiStepBlock combined
                             (complexBlock combined complexPatterns
                               (lengthBlock wordCount (0, []))))));
               score = clampScore (fst acc)
           in \<lparr>Score = score, MinTier = scoreToTier score, RequiresToolUse = False,
                Signals = snd acc\<rparr>)"

section \<open>Model selection (src/internal/backend/analyzer.go)\<close>

text \<open>
  \<open>CostPer1K\<close> is a \<open>float64\<close> in Go.  The catalog's costs are decimal literals that
  \<open>SelectModel\<close> only compares with \<open><\<close>; their order as \<open>float64\<close> values is their
  order as real numbers, so the field is a \<^typ>\<open>real\<close> here.
\<close>

record ModelCapability =
  Backend :: string
  Model :: string
  Tier :: ModelTier
  CostPer1K :: real
  SpeedScore :: int

definition ModelCapabilities :: "ModelCapability list" where
  "ModelCapabilities =
     [\<lparr>Backend = ''grok'', Model = ''grok-3-mini'', Tier = TierSimple,
        CostPer1K = 0.0001, SpeedScore = 9\<rparr>,
      \<lparr>Backend = ''bedrock'', Model = ''haiku'', Tier = TierSimple,
        CostPer1K = 0.001, SpeedScore = 8\<rparr>,
      \<lparr>Backend = ''grok'', Model = ''grok-3'', Tier = TierModerate,
        CostPer1K = 0.01, SpeedScore = 7\<rparr>,
      \<lparr>Backend = ''bedrock'', Model = ''sonnet'', Tier = TierModerate,
        CostPer1K = 0.009, SpeedScore = 6\<rparr>,
      \<lparr>Backend = ''bedrock'', Model = ''opus'', Tier = TierComplex,
        CostPer1K = 0.045, SpeedScore = 4\<rparr>]"

text \<open>\<open>type Intent string\<close> with its five constants.\<close>

type_synonym Intent = string

definition IntentAuto :: Intent where "IntentAuto = ''auto''"
definition IntentFast :: Intent where "IntentFast = ''fast''"
definition IntentCheap :: Intent where "IntentCheap = ''cheap''"
definition IntentBalanced :: Intent where "IntentBalanced = ''balanced''"
definition IntentQuality :: Intent where "IntentQuality = ''quality''"

lemmas intent_defs =
  IntentAuto_def IntentFast_def IntentCheap_def IntentBalanced_def IntentQuality_def

text \<open>The \<open>switch label\<close> of \<open>ExtractIntent\<close>: the intent a single label stands for.\<close>

definition labelIntent :: "string \<Rightarrow> Intent option" where
  "labelIntent label =
     (if label = ''tier:fast'' then Some IntentFast
      else if label = ''tier:cheap'' then Some IntentCheap
      else if label = ''tier:balanced'' then Some IntentBalanced
      else if label = ''tier:quality'' \<or> label = ''tier:powerful'' then Some IntentQuality
      else None)"

fun ExtractIntent :: "string list \<Rightarrow> Intent" where
  "ExtractIntent [] = IntentAuto"
| "ExtractIntent (label # rest) =
     (case labelIntent label of Some i \<Rightarrow> i | None \<Rightarrow> ExtractIntent rest)"

text \<open>The \<open>switch intent\<close> of \<open>SelectModel\<close> that adjusts \<open>minTier\<close>.\<close>

definition adjustMinTier :: "Intent \<Rightarrow> ModelTier \<Rightarrow> ModelTier" where
  "adjustMinTier intent minTier =
     (if intent = IntentFast \<or> intent = IntentCheap
      then (if minTier > TierSimple then minTier - 1 else minTier)
      else if intent = IntentQuality
      then (if minTier < TierComplex then minTier + 1 else minTier)
      else minTier)"

text \<open>
  The loop over \<open>candidates[1:]\<close>: for the fast intent a strictly higher speed score
  replaces \<open>best\<close>, for every other intent a strictly lower cost does.
\<close>

fun pickBest :: "Intent \<Rightarrow> ModelCapability \<Rightarrow> ModelCapability list \<Rightarrow> ModelCapability" where
  "pickBest intent best [] = best"
| "pickBest intent best (c # cs) =
     (if intent = IntentFast
      then (if SpeedScore c > SpeedScore best then pickBest intent c cs
            else pickBest intent best cs)
      else (if CostPer1K c < CostPer1K best then pickBest intent c cs
            else pickBest intent best cs))"

text \<open>
  \<open>SelectModel\<close> dereferences \<open>complexity\<close> at once, so the pointer is a value here;
  the result \<open>*ModelCapability\<close> is an option, \<open>nil\<close> being \<^term>\<open>None\<close>.  The map
  \<open>available\<close> built from \<open>availableBackends\<close> is the set of that list.
\<close>

definition SelectModel ::
  "TaskComplexity \<Rightarrow> Intent \<Rightarrow> string list \<Rightarrow> ModelCapability option" where
  "SelectModel complexity intent availableBackends =
     (if RequiresToolUse complexity then None
      else
        let minTier = adjustMinTier intent (MinTier complexity);
            candidates = filter (\<lambda>cap. Tier cap \<ge> minTier \<and> Backend cap \<in> set availableBackends)
                           ModelCapabilities
        in case candidates of
             [] \<Rightarrow> None
           | c # rest \<Rightarrow> Some (pickBest intent c rest))"

section \<open>Router\<close>

text \<open>
  The router is the part of package \<open>backend\<close> that starts with "Package backend
  provides routing logic" (in the sources at hand it is the last part of
  \<open>src/internal/backend/grok/grok_test.go\<close>); \<open>RouteResult\<close>, the registry and
  \<open>TierToBackend\<close> are in \<open>src/internal/backend/backend.go\<close>.
\<close>

type_synonym RoutingDecision = string

definition RouteAPI :: RoutingDecision where "RouteAPI = ''api''"
definition RouteCLI :: RoutingDecision where "RouteCLI = ''cli''"

record RouteResult =
  Decision :: RoutingDecision
  Backend :: string
  Model :: string
  Reason :: string
  FallbackToCLI :: bool

text \<open>
  \<open>RoutingConfig\<close> without its \<open>Rules\<close> list, which no function of the router reads.
\<close>

record RoutingConfig =
  Enabled :: bool
  DefaultRoute :: RoutingDecision
  DefaultBackend :: string
  DefaultModel :: string
  CostThreshold :: real
  TokenThreshold :: int
  FallbackToCLI :: bool

record RoutingHints =
  Title :: string
  Description :: string
  Tier :: string
  ModelTag :: string
  Intent :: Intent
  Type :: string
  EstimatedTokens :: int
  Labels :: "string list"

text \<open>
  The router reads the registry through \<open>Has\<close> and \<open>List\<close> only, so the registry is
  the list of the registered backend names.  The analyzer has no state.  The
  \<open>log.Printf\<close> calls write to the log and do not change the result; they are left out.
\<close>

record Router =
  config :: RoutingConfig
  registry :: "string list"

definition Has :: "string list \<Rightarrow> string \<Rightarrow> bool" where
  "Has reg name = (name \<in> set reg)"

definition TierToBackend :: "(string \<times> (string \<times> string)) list" where
  "TierToBackend =
     [(''haiku'', (''bedrock'', ''haiku'')),
      (''sonnet'', (''bedrock'', ''sonnet'')),
      (''opus'', (''bedrock'', ''opus'')),
      (''grok-fast'', (''grok'', ''grok-3-mini'')),
      (''grok'', (''grok'', ''grok-3'')),
      (''grok-4'', (''grok'', ''grok-4'')),
      (''gpt4'', (''openai'', ''gpt-4o'')),
      (''o1'', (''openai'', ''o1'')),
      (''o3-mini'', (''openai'', ''o3-mini''))]"

definition tierString :: "ModelTier \<Rightarrow> string" where
  "tierString t =
     (if t = TierSimple then ''simple''
      else if t = TierModerate then ''moderate''
      else if t = TierComplex then ''complex''
      else if t = TierCLI then ''cli''
      else ''unknown'')"

definition buildReason :: "TaskComplexity \<Rightarrow> Intent \<Rightarrow> ModelCapability \<Rightarrow> string" where
  "buildReason complexity intent selected =
     ''complexity='' @ tierString (MinTier complexity) @
     (if intent \<noteq> IntentAuto then '', intent='' @ intent else []) @
     '', selected='' @ ModelCapability.Backend selected @ ''/'' @ ModelCapability.Model selected"

definition tagFallbackIntent :: "string \<Rightarrow> Intent" where
  "tagFallbackIntent tag =
     (if tag = ''grok-fast'' \<or> tag = ''haiku'' then IntentCheap
      else if tag = ''grok'' \<or> tag = ''sonnet'' then IntentBalanced
      else if tag = ''opus'' \<or> tag = ''grok-4'' then IntentQuality
      else IntentAuto)"

definition tagFallbackComplexity :: "Intent \<Rightarrow> TaskComplexity" where
  "tagFallbackComplexity intent =
     \<lparr>Score = 0,
      MinTier = (if intent = IntentQuality then TierComplex
                 else if intent = IntentBalanced then TierModerate
                 else TierSimple),
      RequiresToolUse = False, Signals = []\<rparr>"

definition findFallbackForTag :: "Router \<Rightarrow> string \<Rightarrow> RouteResult option" where
  "findFallbackForTag r tag =
     (let intent = tagFallbackIntent tag;
          complexity = tagFallbackComplexity intent
      in case SelectModel complexity intent (registry r) of
           None \<Rightarrow> None
         | Some selected \<Rightarrow>
             Some \<lparr>Decision = RouteAPI,
                   Backend = ModelCapability.Backend selected,
                   Model = ModelCapability.Model selected,
                   Reason = ''fallback from '' @ tag @ '' to '' @
                            ModelCapability.Backend selected @ ''/'' @
                            ModelCapability.Model selected,
                   FallbackToCLI = RoutingConfig.FallbackToCLI (config r)\<rparr>)"

definition routeByModelTag :: "Router \<Rightarrow> string \<Rightarrow> RouteResult option" where
  "routeByModelTag r tag =
     (case map_of TierToBackend tag of
        Some (mBackend, mModel) \<Rightarrow>
          if Has (registry r) mBackend
          then Some \<lparr>Decision = RouteAPI, Backend = mBackend, Model = mModel,
                     Reason = ''legacy model tag: '' @ tag,
                     FallbackToCLI = RoutingConfig.FallbackToCLI (config r)\<rparr>
          else findFallbackForTag r tag
      | None \<Rightarrow>
          if Has (registry r) tag
          then Some \<lparr>Decision = RouteAPI, Backend = tag, Model = [],
                     Reason = ''legacy model tag (backend): '' @ tag,
                     FallbackToCLI = RoutingConfig.FallbackToCLI (config r)\<rparr>
          else None)"

text \<open>The \<open>switch tier\<close> of \<open>routeByLegacyTier\<close>, on the lower-cased tier.\<close>

definition legacyTierPlan :: "string \<Rightarrow> (Intent \<times> ModelTier) option" where
  "legacyTierPlan tier =
     (if tier = ''haiku'' then Some (IntentCheap, TierSimple)
      else if tier = ''sonnet'' then Some (IntentBalanced, TierModerate)
      else if tier = ''opus'' then Some (IntentQuality, TierComplex)
      else None)"

text \<open>The arrow in the reason of a legacy tier route is U+2192, three bytes in UTF-8.\<close>

definition arrow :: string where
  "arrow = [CHR 0xE2, CHR 0x86, CHR 0x92]"

definition routeByLegacyTier :: "Router \<Rightarrow> string \<Rightarrow> RouteResult option" where
  "routeByLegacyTier r tier0 =
     (let tier = ToLower tier0
      in case legacyTierPlan tier of
           None \<Rightarrow> None
         | Some (intent, minTier) \<Rightarrow>
             (case SelectModel \<lparr>Score = 0, MinTier = minTier, RequiresToolUse = False,
                                Signals = []\<rparr> intent (registry r) of
                None \<Rightarrow>
                  Some \<lparr>Decision = RouteCLI, Backend = [], Model = [],
                        Reason = ''no API model available for tier: '' @ tier,
                        FallbackToCLI = False\<rparr>
              | Some selected \<Rightarrow>
                  Some \<lparr>Decision = RouteAPI,
                        Backend = ModelCapability.Backend selected,
                        Model = ModelCapability.Model selected,
                        Reason = ''legacy tier: '' @ tier @ '' '' @ arrow @ '' '' @
                                 ModelCapability.Backend selected @ ''/'' @
                                 ModelCapability.Model selected,
                        FallbackToCLI = RoutingConfig.FallbackToCLI (config r)\<rparr>))"

text \<open>
  \<open>Route\<close> is one long function; it is split here at its numbered comments.
  \<open>routeAnalyzed\<close> is steps 5 to 9 (the analysis and what follows), \<open>routeFromTier\<close>
  is step 4 followed by them, and \<open>Route\<close> is steps 1 to 3 followed by
  \<open>routeFromTier\<close>.  A \<open>nil\<close> hints pointer is replaced by the zero value.
\<close>

definition emptyHints :: RoutingHints where
  "emptyHints = \<lparr>Title = [], Description = [], Tier = [], ModelTag = [], Intent = [],
                 Type = [], EstimatedTokens = 0, Labels = []\<rparr>"

definition cliResult :: "string \<Rightarrow> bool \<Rightarrow> RouteResult" where
  "cliResult reason fallback =
     \<lparr>Decision = RouteCLI, Backend = [], Model = [], Reason = reason, FallbackToCLI = fallback\<rparr>"

definition routeAnalyzed :: "Router \<Rightarrow> RoutingHints \<Rightarrow> Intent \<Rightarrow> RouteResult" where
  "routeAnalyzed r hints intent =
     (let complexity = Analyze (Title hints) (Description hints) (Labels hints)
      in if RequiresToolUse complexity
         then cliResult ''task requires tool use (file operations, git, etc.)'' False
         else if EstimatedTokens hints > 0 \<and> EstimatedTokens hints > TokenThreshold (config r)
         then cliResult ''exceeds token threshold'' False
         else if length (registry r) = 0
         then cliResult ''no API backends available'' False
         else case SelectModel complexity intent (registry r) of
                None \<Rightarrow> cliResult ''no suitable model available for task complexity'' True
              | Some selected \<Rightarrow>
                  \<lparr>Decision = RouteAPI,
                   Backend = ModelCapability.Backend selected,
                   Model = ModelCapability.Model selected,
                   Reason = buildReason complexity intent selected,
                   FallbackToCLI = RoutingConfig.FallbackToCLI (config r)\<rparr>)"

definition routeFromTier :: "Router \<Rightarrow> RoutingHints \<Rightarrow> Intent \<Rightarrow> RouteResult" where
  "routeFromTier r hints intent =
     (case (if RoutingHints.Tier hints \<noteq> [] then routeByLegacyTier r (RoutingHints.Tier hints)
            else None) of
        Some result \<Rightarrow> result
      | None \<Rightarrow> routeAnalyzed r hints intent)"

definition Route :: "Router \<Rightarrow> RoutingHints option \<Rightarrow> RouteResult" where
  "Route r hintsPtr =
     (if \<not> Enabled (config r) then cliResult ''hybrid routing disabled'' False
      else
        let hints = (case hintsPtr of None \<Rightarrow> emptyHints | Some h \<Rightarrow> h);
            intent0 = ExtractIntent (Labels hints);
            intent = (if intent0 = IntentAuto \<and> Intent hints \<noteq> [] then Intent hints
                      else intent0)
        in case (if ModelTag hints \<noteq> [] then routeByModelTag r (ModelTag hints) else None) of
             Some result \<Rightarrow> result
           | None \<Rightarrow> routeFromTier r hints intent)"

section \<open>Context manager (src/internal/backend/context.go)\<close>

text \<open>
  Go's \<open>int\<close> is 64 bits wide.  Token counts and lengths are sums of string lengths
  divided by four and stay far inside that range, so they are unbounded integers
  here; \<open>/\<close> on the non-negative \<open>chars\<close> is \<open>div\<close>.
\<close>

record Message =
  Role :: string
  Content :: string

type_synonym TruncationStrategy = string

definition TruncateOldest :: TruncationStrategy where "TruncateOldest = ''truncate_oldest''"
definition TruncateMiddle :: TruncationStrategy where "TruncateMiddle = ''truncate_middle''"
definition TruncateLongest :: TruncationStrategy where "TruncateLongest = ''truncate_longest''"


record ContextManager =
  DefaultStrategy :: TruncationStrategy
  ReserveTokens :: int

definition NewContextManager :: ContextManager where
  "NewContextManager = \<lparr>DefaultStrategy = TruncateOldest, ReserveTokens = 4096\<rparr>"

text \<open>
  The errors of the context manager: the two \<open>fmt.Errorf\<close> values, with the numbers
  they print, and the run-time panic of a slice expression with a negative bound.
\<close>

datatype context_error =
  ReserveTooLarge int int
  | CannotFit int
  | SliceBoundsPanic

definition isSystem :: "Message \<Rightarrow> bool" where
  "isSystem msg = (Role msg = ''system'')"

definition estimateMessageTokens :: "Message \<Rightarrow> int" where
  "estimateMessageTokens msg =
     (let chars = int (length (Content msg)) + int (length (Role msg)) + 10 in chars div 4)"

fun estimateTokens :: "Message list \<Rightarrow> int" where
  "estimateTokens [] = 0"
| "estimateTokens (msg # rest) = estimateMessageTokens msg + estimateTokens rest"

text \<open>
  \<open>truncateMessage\<close>: \<open>msg.Content[:maxChars-3]\<close> panics when \<open>maxChars - 3\<close> is
  negative; it cannot exceed the length, since the branch is taken only when the
  content is longer than \<open>maxChars\<close>.
\<close>

definition truncateMessage :: "Message \<Rightarrow> int \<Rightarrow> context_error + Message" where
  "truncateMessage msg maxTokens =
     (let maxChars = maxTokens * 4
      in if int (length (Content msg)) \<le> maxChars then Inr msg
         else if maxChars - 3 < 0 then Inl SliceBoundsPanic
         else Inr \<lparr>Role = Role msg, Content = take (nat (maxChars - 3)) (Content msg) @ ''...''\<rparr>)"

text \<open>
  The separation loop of \<open>truncateOldest\<close> and \<open>truncateMiddle\<close>: the message at
  index 0 is the system message when its role is \<open>system\<close>; every other message, a
  later system message included, goes to the conversation.
\<close>

definition splitSystem :: "Message list \<Rightarrow> Message option \<times> Message list" where
  "splitSystem messages =
     (case messages of
        [] \<Rightarrow> (None, [])
      | m # rest \<Rightarrow> if isSystem m then (Some m, rest) else (None, m # rest))"

definition prependSystem :: "Message option \<Rightarrow> Message list \<Rightarrow> Message list" where
  "prependSystem systemMsg result =
     (case systemMsg of None \<Rightarrow> result | Some m \<Rightarrow> m # result)"

text \<open>
  The loop of \<open>truncateOldest\<close> walks the conversation from its last message to its
  first, so it takes the conversation reversed; it stops at the first message that
  does not fit.
\<close>

fun keepRecent :: "Message list \<Rightarrow> int \<Rightarrow> int \<Rightarrow> Message list \<Rightarrow> Message list" where
  "keepRecent [] available currentTokens result = result"
| "keepRecent (msg # older) available currentTokens result =
     (let msgTokens = estimateMessageTokens msg
      in if currentTokens + msgTokens > available then result
         else keepRecent older available (currentTokens + msgTokens) (msg # result))"

definition truncateOldest :: "Message list \<Rightarrow> int \<Rightarrow> context_error + Message list" where
  "truncateOldest messages maxTokens =
     (if length messages < 2 then Inr messages
      else
        let (systemMsg, conversation) = splitSystem messages;
            systemTokens = (case systemMsg of None \<Rightarrow> 0 | Some m \<Rightarrow> estimateMessageTokens m);
            availableForConversation = maxTokens - systemTokens
        in if availableForConversation \<le> 0
           then (case systemMsg of
                   Some m \<Rightarrow>
                     (case truncateMessage m maxTokens of
                        Inl e \<Rightarrow> Inl e
                      | Inr truncated \<Rightarrow> Inr [truncated])
                 | None \<Rightarrow> Inl (CannotFit maxTokens))
           else Inr (prependSystem systemMsg
                       (keepRecent (rev conversation) availableForConversation 0 [])))"

text \<open>
  The loop of \<open>truncateMiddle\<close>, with \<open>left\<close>, \<open>right\<close>, \<open>kept\<close> and \<open>currentTokens\<close>
  as its state.  A message taken from the left is appended to \<open>kept\<close>; one taken
  from the right is inserted at index \<open>left\<close> (the \<open>append\<close> of a placeholder, the
  \<open>copy\<close> and the assignment).  \<open>left\<close> never exceeds the length of \<open>kept\<close> and
  \<open>right\<close> never falls below \<open>left - 1\<close>, so the indices are natural numbers in range.
\<close>

function middleLoop ::
  "Message list \<Rightarrow> int \<Rightarrow> nat \<Rightarrow> nat \<Rightarrow> Message list \<Rightarrow> int \<Rightarrow> Message list" where
  "middleLoop middle remaining left right kept currentTokens =
     (if \<not> left \<le> right then kept
      else
        let leftTokens = estimateMessageTokens (middle ! left)
        in if currentTokens + leftTokens \<le> remaining
           then
             let kept1 = kept @ [middle ! left];
                 current1 = currentTokens + leftTokens;
                 left1 = left + 1
             in if left1 \<le> right
                then
                  let rightTokens = estimateMessageTokens (middle ! right)
                  in if current1 + rightTokens \<le> remaining
                     then middleLoop middle remaining left1 (right - 1)
                            (take left1 kept1 @ [middle ! right] @ drop left1 kept1)
                            (current1 + rightTokens)
                     else kept1
                else middleLoop middle remaining left1 right kept1 current1
           else kept)"
  by pat_completeness auto
termination
  by (relation "measure (\<lambda>(middle, remaining, left, right, kept, cur). Suc right - left)") auto

definition truncateMiddle :: "Message list \<Rightarrow> int \<Rightarrow> context_error + Message list" where
  "truncateMiddle messages maxTokens =
     (if length messages \<le> 2 then Inr messages
      else
        let (systemMsg, conversation) = splitSystem messages
        in if length conversation \<le> 2 then Inr (prependSystem systemMsg conversation)
           else
             let systemTokens =
                   (case systemMsg of None \<Rightarrow> 0 | Some m \<Rightarrow> estimateMessageTokens m);
                 availableForConversation = maxTokens - systemTokens;
                 first = hd conversation;
                 last_msg = last conversation;
                 firstTokens = estimateMessageTokens first;
                 lastTokens = estimateMessageTokens last_msg;
                 remaining = availableForConversation - firstTokens - lastTokens
             in if remaining \<le> 0 then Inr (prependSystem systemMsg [first, last_msg])
                else
                  let middle = butlast (tl conversation);
                      kept = middleLoop middle remaining 0 (length middle - 1) [] 0
                  in Inr (prependSystem systemMsg ([first] @ kept @ [last_msg])))"

text \<open>
  The inner loop of \<open>truncateLongest\<close>: \<open>longestIdx\<close> starts at \<open>-1\<close> (here
  \<^term>\<open>None\<close>) and \<open>longestLen\<close> at 0; a non-system message replaces the current
  choice when its content is strictly longer.
\<close>

fun findLongest :: "Message list \<Rightarrow> nat \<Rightarrow> nat option \<Rightarrow> nat \<Rightarrow> nat option" where
  "findLongest [] i longestIdx longestLen = longestIdx"
| "findLongest (msg # rest) i longestIdx longestLen =
     (if isSystem msg then findLongest rest (i + 1) longestIdx longestLen
      else if length (Content msg) > longestLen
      then findLongest rest (i + 1) (Some i) (length (Content msg))
      else findLongest rest (i + 1) longestIdx longestLen)"

lemma findLongest_bound:
  "findLongest msgs i idx len = Some k \<Longrightarrow> (idx = Some k) \<or> (i \<le> k \<and> k < i + length msgs)"
proof (induction msgs arbitrary: i idx len)
  case Nil
  then show ?case by simp
next
  case (Cons m ms)
  then show ?case by (fastforce split: if_splits)
qed

lemma findLongest_less: "findLongest msgs 0 None 0 = Some k \<Longrightarrow> k < length msgs"
  using findLongest_bound [of msgs 0 None 0 k] by simp

text \<open>
  The outer loop of \<open>truncateLongest\<close>, on the copy \<open>msgs\<close>:
  \<open>append(msgs[:longestIdx], msgs[longestIdx+1:]...)\<close> removes the chosen message.
\<close>

function longestLoop :: "Message list \<Rightarrow> int \<Rightarrow> Message list" where
  "longestLoop msgs maxTokens =
     (if estimateTokens msgs > maxTokens \<and> length msgs > 1
      then (case findLongest msgs 0 None 0 of
              None \<Rightarrow> msgs
            | Some longestIdx \<Rightarrow>
                longestLoop (take longestIdx msgs @ drop (longestIdx + 1) msgs) maxTokens)
      else msgs)"
  by pat_completeness auto
termination
  by (relation "measure (\<lambda>(msgs, maxTokens). length msgs)")
     (auto dest: findLongest_less)

definition truncateLongest :: "Message list \<Rightarrow> int \<Rightarrow> context_error + Message list" where
  "truncateLongest messages maxTokens = Inr (longestLoop messages maxTokens)"

definition PrepareContext ::
  "ContextManager \<Rightarrow> Message list \<Rightarrow> int \<Rightarrow> TruncationStrategy \<Rightarrow>
     context_error + Message list" where
  "PrepareContext cm messages maxTokens strategy0 =
     (if length messages = 0 then Inr messages
      else
        let currentTokens = estimateTokens messages;
            availableTokens = maxTokens - ReserveTokens cm
        in if availableTokens \<le> 0 then Inl (ReserveTooLarge maxTokens (ReserveTokens cm))
           else if currentTokens \<le> availableTokens then Inr messages
           else
             let strategy = (if strategy0 = [] then DefaultStrategy cm else strategy0)
             in if strategy = TruncateOldest then truncateOldest messages availableTokens
                else if strategy = TruncateMiddle then truncateMiddle messages availableTokens
                else if strategy = TruncateLongest then truncateLongest messages availableTokens
                else truncateOldest messages availableTokens)"

section \<open>Cost tracker\<close>

text \<open>
  The cost tracker is the part of package \<open>backend\<close> that starts with "Package backend
  provides cost tracking and estimation" (in the sources at hand, the second part of
  \<open>src/unnamed/part_001\<close>).
\<close>

text \<open>
  Costs are \<open>float64\<close> values in Go; they are real numbers here, and \<open>+\<close> stands for
  the addition of the source.  \<open>time.Time\<close> is an integer, and the \<open>time.Now()\<close> of
  \<open>Record\<close> is an argument.  The mutex serialises the calls, so each method is a
  function from the tracker's state to its next state or to its result.  \<open>Record\<close>
  reads \<open>result.InputTokens\<close> at once, so the pointer \<open>result\<close> is a value.
\<close>

record CostEstimate =
  InputCost :: real
  OutputCost :: real
  TotalCost :: real
  Currency :: string
  Model :: string

record InvokeResult =
  Content :: string
  Model :: string
  InputTokens :: int
  OutputTokens :: int
  FinishReason :: string

record CostEntry =
  Timestamp :: int
  Backend :: string
  Model :: string
  InputTokens :: int
  OutputTokens :: int
  Cost :: CostEstimate

record CostTracker =
  entries :: "CostEntry list"
  total :: real
  WarnThreshold :: real
  AlertThreshold :: real

record BackendCostSummary =
  Invocations :: int
  InputTokens :: int
  OutputTokens :: int
  TotalCost :: real

definition NewCostTracker :: CostTracker where
  "NewCostTracker = \<lparr>entries = [], total = 0, WarnThreshold = 0.10, AlertThreshold = 5.00\<rparr>"

definition Record ::
  "CostTracker \<Rightarrow> int \<Rightarrow> string \<Rightarrow> string \<Rightarrow> InvokeResult \<Rightarrow> CostEstimate \<Rightarrow> CostTracker" where
  "Record ct now backend model result cost =
     (let entry = \<lparr>Timestamp = now, Backend = backend, Model = model,
                   InputTokens = InvokeResult.InputTokens result,
                   OutputTokens = InvokeResult.OutputTokens result,
                   Cost = cost\<rparr>
      in ct\<lparr>entries := entries ct @ [entry],
            total := total ct + CostEstimate.TotalCost cost\<rparr>)"

text \<open>The two threshold checks of \<open>Record\<close>, as the log lines the call writes.\<close>

datatype cost_log = CostWarning | CostAlert

definition Record_log :: "CostTracker \<Rightarrow> CostEstimate \<Rightarrow> cost_log list" where
  "Record_log ct cost =
     (if CostEstimate.TotalCost cost > WarnThreshold ct then [CostWarning] else []) @
     (if total ct + CostEstimate.TotalCost cost > AlertThreshold ct then [CostAlert] else [])"

definition Total :: "CostTracker \<Rightarrow> real" where
  "Total ct = total ct"

definition Entries :: "CostTracker \<Rightarrow> CostEntry list" where
  "Entries ct = entries ct"

definition zeroSummary :: BackendCostSummary where
  "zeroSummary = \<lparr>Invocations = 0, InputTokens = 0, OutputTokens = 0, TotalCost = 0\<rparr>"

text \<open>
  A Go map read at a missing key gives the zero value: \<open>summaryAt summary backend\<close> is
  \<open>summary[backend]\<close>.
\<close>

definition summaryAt :: "(string \<rightharpoonup> BackendCostSummary) \<Rightarrow> string \<Rightarrow> BackendCostSummary" where
  "summaryAt summary backend = (case summary backend of None \<Rightarrow> zeroSummary | Some s \<Rightarrow> s)"

definition addEntry ::
  "CostEntry \<Rightarrow> (string \<rightharpoonup> BackendCostSummary) \<Rightarrow> (string \<rightharpoonup> BackendCostSummary)" where
  "addEntry entry summary =
     (let s = summaryAt summary (CostEntry.Backend entry)
      in summary(CostEntry.Backend entry \<mapsto>
           \<lparr>Invocations = Invocations s + 1,
            InputTokens = InputTokens s + CostEntry.InputTokens entry,
            OutputTokens = OutputTokens s + CostEntry.OutputTokens entry,
            TotalCost = TotalCost s + CostEstimate.TotalCost (Cost entry)\<rparr>))"

fun summarize ::
  "CostEntry list \<Rightarrow> (string \<rightharpoonup> BackendCostSummary) \<Rightarrow> (string \<rightharpoonup> BackendCostSummary)" where
  "summarize [] summary = summary"
| "summarize (entry # rest) summary = summarize rest (addEntry entry summary)"

definition Summary :: "CostTracker \<Rightarrow> (string \<rightharpoonup> BackendCostSummary)" where
  "Summary ct = summarize (entries ct) Map.empty"

definition Reset :: "CostTracker \<Rightarrow> CostTracker" where
  "Reset ct = ct\<lparr>entries := [], total := 0\<rparr>"

section \<open>Statements taken from the specification\<close>

text \<open>
  The specification describes step 1 of the analyzer as "lower-case and concatenate
  title+description".  \<open>spec_requiresToolUse\<close> is the tool-use test on that text, the
  plain concatenation, to be compared with what \<open>Analyze\<close> computes.
\<close>

definition spec_requiresToolUse :: "string \<Rightarrow> string \<Rightarrow> bool" where
  "spec_requiresToolUse title description =
     any_contained (ToLower (title @ description)) toolPatterns"

text \<open>
  Claim C2 describes the effective minimum tier of \<open>SelectModel\<close> in words: lowered by
  one tier for the intents fast and cheap, floored at Simple; raised by one tier for
  the intent quality, capped at Complex; unchanged otherwise.  \<open>claimed_min_tier\<close> is
  that description.  \<open>amended_min_tier\<close> differs from it for the intent quality only:
  the tier is raised when it is below Complex and is left as it is otherwise.
  \<open>capable minTier available\<close> lists the catalog entries whose tier is at least
  \<open>minTier\<close> and whose backend is in \<open>available\<close>.
\<close>

definition claimed_min_tier :: "Intent \<Rightarrow> ModelTier \<Rightarrow> ModelTier" where
  "claimed_min_tier intent t =
     (if intent = IntentFast \<or> intent = IntentCheap then max TierSimple (t - 1)
      else if intent = IntentQuality then min TierComplex (t + 1)
      else t)"

definition amended_min_tier :: "Intent \<Rightarrow> ModelTier \<Rightarrow> ModelTier" where
  "amended_min_tier intent t =
     (if intent = IntentFast \<or> intent = IntentCheap then max TierSimple (t - 1)
      else if intent = IntentQuality then (if t < TierComplex then t + 1 else t)
      else t)"

definition capable :: "ModelTier \<Rightarrow> string list \<Rightarrow> ModelCapability list" where
  "capable minTier available =
     filter (\<lambda>cap. ModelCapability.Tier cap \<ge> minTier \<and> ModelCapability.Backend cap \<in> set available)
       ModelCapabilities"



section \<open>Properties of the task analyzer\<close>

lemma HasPrefix_iff: "HasPrefix s p \<longleftrightarrow> (\<exists>b. s = p @ b)"
  by (induction s p rule: HasPrefix.induct) auto

lemma Contains_iff: "Contains s sub \<longleftrightarrow> (\<exists>a b. s = a @ sub @ b)"
proof (induction s)
  case Nil
  then show ?case by simp
next
  case (Cons c cs)
  show ?case
  proof
    assume "Contains (c # cs) sub"
    then consider "HasPrefix (c # cs) sub" | "Contains cs sub" by auto
    then show "\<exists>a b. c # cs = a @ sub @ b"
    proof cases
      case 1
      then obtain b where "c # cs = sub @ b" by (auto simp: HasPrefix_iff)
      then have "c # cs = [] @ sub @ b" by simp
      then show ?thesis by blast
    next
      case 2
      then obtain a b where "cs = a @ sub @ b" using Cons.IH by blast
      then have "c # cs = (c # a) @ sub @ b" by simp
      then show ?thesis by blast
    qed
  next
    assume "\<exists>a b. c # cs = a @ sub @ b"
    then obtain a b where ab: "c # cs = a @ sub @ b" by blast
    show "Contains (c # cs) sub"
    proof (cases a)
      case Nil
      with ab have "HasPrefix (c # cs) sub" by (auto simp: HasPrefix_iff)
      then show ?thesis by simp
    next
      case (Cons x a')
      with ab have "cs = a' @ sub @ b" by simp
      then have "Contains cs sub" using Cons.IH by blast
      then show ?thesis by simp
    qed
  qed
qed

lemma any_contained_iff: "any_contained text ps \<longleftrightarrow> (\<exists>p\<in>set ps. Contains text p)"
  by (induction ps) auto

lemma clampScore_range: "0 \<le> clampScore s \<and> clampScore s \<le> 100"
  by (simp add: clampScore_def Let_def)

lemma scoreToTier_cases:
  "(scoreToTier s = TierSimple \<longleftrightarrow> s < 25) \<and>
   (scoreToTier s = TierModerate \<longleftrightarrow> 25 \<le> s \<and> s < 50) \<and>
   (scoreToTier s = TierComplex \<longleftrightarrow> 50 \<le> s) \<and>
   scoreToTier s \<noteq> TierCLI"
  by (simp add: scoreToTier_def tier_defs)

text \<open>
  Claim C1, as amended.  \<open>Analyze\<close> reports \<open>RequiresToolUse\<close> exactly when the
  lower-cased text \<open>title + " " + description\<close> (title and description joined by a
  single space) contains one of the fixed tool-use phrases, whatever the labels are;
  and whenever it does, the tier is \<open>TierCLI\<close> and the score is 100.
\<close>

theorem Analyze_tool_use:
  "(RequiresToolUse (Analyze title description labels) \<longleftrightarrow>
      (\<exists>p\<in>set toolPatterns. \<exists>a b. ToLower (title @ '' '' @ description) = a @ p @ b)) \<and>
   (RequiresToolUse (Analyze title description labels) \<longrightarrow>
      MinTier (Analyze title description labels) = TierCLI \<and>
      Score (Analyze title description labels) = 100)"
  by (simp add: Analyze_def Let_def requiresToolUse_def any_contained_iff Contains_iff)

text \<open>The tool-use test wins over a \<open>tier:cheap\<close> label, which would clamp a score to 30.\<close>

theorem Analyze_tool_use_witness:
  "RequiresToolUse (Analyze ''Task'' ''Create a file called config.json'' [''tier:cheap'']) \<and>
   MinTier (Analyze ''Task'' ''Create a file called config.json'' [''tier:cheap'']) = TierCLI \<and>
   Score (Analyze ''Task'' ''Create a file called config.json'' [''tier:cheap'']) = 100"
proof -
  have "RequiresToolUse (Analyze ''Task'' ''Create a file called config.json'' [''tier:cheap''])"
    by code_simp
  with Analyze_tool_use [of "''Task''" "''Create a file called config.json''" "[''tier:cheap'']"]
  show ?thesis by blast
qed

text \<open>
  Claim C1 as stated speaks of the concatenation of title and description.  For the
  title \<open>create\<close> and the description \<open>file\<close> the plain concatenation \<open>createfile\<close>
  contains no tool-use phrase, while \<open>Analyze\<close> joins the two with a space, finds
  \<open>create file\<close> and reports tool use.
\<close>

theorem Analyze_plain_concatenation_counterexample:
  "RequiresToolUse (Analyze ''create'' ''file'' []) = True \<and>
   spec_requiresToolUse ''create'' ''file'' = False"
  by code_simp

text \<open>
  Claim C3.  The score \<open>Analyze\<close> returns lies between 0 and 100; and when no tool use
  is required, the tier is Simple exactly when the score is below 25, Moderate exactly
  when it is at least 25 and below 50, Complex exactly when it is at least 50, and
  never \<open>TierCLI\<close>.
\<close>

theorem Analyze_score_tier:
  "0 \<le> Score (Analyze title description labels) \<and>
   Score (Analyze title description labels) \<le> 100 \<and>
   (\<not> RequiresToolUse (Analyze title description labels) \<longrightarrow>
      (MinTier (Analyze title description labels) = TierSimple \<longleftrightarrow>
         Score (Analyze title description labels) < 25) \<and>
      (MinTier (Analyze title description labels) = TierModerate \<longleftrightarrow>
         25 \<le> Score (Analyze title description labels) \<and>
         Score (Analyze title description labels) < 50) \<and>
      (MinTier (Analyze title description labels) = TierComplex \<longleftrightarrow>
         50 \<le> Score (Analyze title description labels)) \<and>
      MinTier (Analyze title description labels) \<noteq> TierCLI)"
proof (cases "requiresToolUse (ToLower (title @ '' '' @ description))")
  case True
  then show ?thesis by (simp add: Analyze_def Let_def)
next
  case False
  then show ?thesis
    using clampScore_range scoreToTier_cases
    by (simp add: Analyze_def Let_def)
qed

text \<open>A task without tool use whose score of 30 gives the Moderate tier.\<close>

theorem Analyze_score_tier_witness:
  "\<not> RequiresToolUse (Analyze ''Implement user auth''
        ''Implement a complete user authentication system with OAuth support'' []) \<and>
   Score (Analyze ''Implement user auth''
        ''Implement a complete user authentication system with OAuth support'' []) = 30 \<and>
   MinTier (Analyze ''Implement user auth''
        ''Implement a complete user authentication system with OAuth support'' []) = TierModerate"
proof -
  let ?A = "Analyze ''Implement user auth''
        ''Implement a complete user authentication system with OAuth support'' []"
  have nt: "\<not> RequiresToolUse ?A" by code_simp
  have sc: "Score ?A = 30" by code_simp
  from Analyze_score_tier [of "''Implement user auth''"
        "''Implement a complete user authentication system with OAuth support''" "[]"] nt sc
  show ?thesis by simp
qed

section \<open>Properties of model selection\<close>

lemma catalog_tier_nonneg:
  "cap \<in> set ModelCapabilities \<Longrightarrow> TierSimple \<le> ModelCapability.Tier cap"
  by (auto simp: ModelCapabilities_def tier_defs)

lemma adjust_amended:
  assumes "TierSimple \<le> k"
  shows "adjustMinTier intent t \<le> k \<longleftrightarrow> amended_min_tier intent t \<le> k"
  using assms by (auto simp: adjustMinTier_def amended_min_tier_def tier_defs)

lemma SelectModel_None_candidates:
  "SelectModel c i av = None \<longleftrightarrow>
     RequiresToolUse c \<or> capable (adjustMinTier i (MinTier c)) av = []"
  by (simp add: SelectModel_def capable_def Let_def split: list.split)

lemma capable_empty_amended:
  "capable (adjustMinTier i t) av = [] \<longleftrightarrow> capable (amended_min_tier i t) av = []"
  using adjust_amended [OF catalog_tier_nonneg]
  by (auto simp: capable_def filter_empty_conv)

text \<open>
  The wording of claim C2 and the amended wording give the same tier up to Complex,
  that is, for every tier the analyzer produces when no tool use is required.
\<close>

lemma claimed_min_tier_agrees:
  "t \<le> TierComplex \<Longrightarrow> claimed_min_tier intent t = amended_min_tier intent t"
  by (simp add: claimed_min_tier_def amended_min_tier_def tier_defs)

text \<open>
  Claim C2, as amended.  \<open>SelectModel\<close> returns none exactly when tool use is required
  or no catalog entry has a tier at least the effective minimum tier and a backend among
  the available ones; the effective minimum tier is \<open>MinTier\<close> lowered by one tier for
  the intents fast and cheap (floored at Simple), raised by one tier for the intent
  quality when it is below Complex (a tier of Complex or above, \<open>TierCLI\<close> included, is
  left as it is), and unchanged for every other intent.
\<close>

theorem SelectModel_none_iff:
  "SelectModel complexity intent availableBackends = None \<longleftrightarrow>
     RequiresToolUse complexity \<or>
     \<not> (\<exists>cap\<in>set ModelCapabilities.
           ModelCapability.Tier cap \<ge> amended_min_tier intent (MinTier complexity) \<and>
           ModelCapability.Backend cap \<in> set availableBackends)"
proof -
  have "capable (amended_min_tier intent (MinTier complexity)) availableBackends = [] \<longleftrightarrow>
        \<not> (\<exists>cap\<in>set ModelCapabilities.
           ModelCapability.Tier cap \<ge> amended_min_tier intent (MinTier complexity) \<and>
           ModelCapability.Backend cap \<in> set availableBackends)"
    by (auto simp: capable_def filter_empty_conv)
  then show ?thesis
    by (simp only: SelectModel_None_candidates capable_empty_amended)
qed

text \<open>
  A Complex task with only \<open>grok\<close> available has no model; a Simple task with the intent
  quality and \<open>bedrock\<close> available has one.
\<close>

theorem SelectModel_none_iff_witness:
  "SelectModel \<lparr>Score = 60, MinTier = TierComplex, RequiresToolUse = False, Signals = []\<rparr>
     IntentAuto [''grok''] = None \<and>
   SelectModel \<lparr>Score = 0, MinTier = TierSimple, RequiresToolUse = False, Signals = []\<rparr>
     IntentQuality [''bedrock''] \<noteq> None"
proof -
  have a: "\<not> (\<exists>cap\<in>set ModelCapabilities.
           ModelCapability.Tier cap \<ge> amended_min_tier IntentAuto TierComplex \<and>
           ModelCapability.Backend cap \<in> set [''grok''])"
    by (simp add: ModelCapabilities_def amended_min_tier_def tier_defs intent_defs)
  have b: "\<exists>cap\<in>set ModelCapabilities.
           ModelCapability.Tier cap \<ge> amended_min_tier IntentQuality TierSimple \<and>
           ModelCapability.Backend cap \<in> set [''bedrock'']"
    by (simp add: ModelCapabilities_def amended_min_tier_def tier_defs intent_defs)
  from a b
    SelectModel_none_iff [of "\<lparr>Score = 60, MinTier = TierComplex, RequiresToolUse = False,
      Signals = []\<rparr>" IntentAuto "[''grok'']"]
    SelectModel_none_iff [of "\<lparr>Score = 0, MinTier = TierSimple, RequiresToolUse = False,
      Signals = []\<rparr>" IntentQuality "[''bedrock'']"]
  show ?thesis by simp
qed

text \<open>
  Claim C2 as stated caps the raised tier at Complex.  For a complexity with
  \<open>MinTier = TierCLI\<close> and no tool use, the intent quality and \<open>bedrock\<close> available, the
  claimed effective tier is Complex and \<open>opus\<close> meets it, yet \<open>SelectModel\<close> keeps
  \<open>TierCLI\<close> (its guard is \<open>minTier < TierComplex\<close>), finds no candidate and returns none.
\<close>

theorem SelectModel_quality_cap_counterexample:
  "SelectModel \<lparr>Score = 0, MinTier = TierCLI, RequiresToolUse = False, Signals = []\<rparr>
     IntentQuality [''bedrock''] = None \<and>
   claimed_min_tier IntentQuality TierCLI = TierComplex \<and>
   map ModelCapability.Model (capable (claimed_min_tier IntentQuality TierCLI) [''bedrock''])
     = [''opus'']"
  by code_simp

text \<open>
  Claim C6.  The catalog's comment says "cheapest first within each tier", but in the
  Moderate tier \<open>grok-3\<close> (0.01 per 1K tokens) stands before \<open>sonnet\<close> (0.009): the
  entries at indices 2 and 3 have the same tier and the later one is cheaper.
\<close>

theorem catalog_moderate_tier_not_ascending:
  "ModelCapability.Tier (ModelCapabilities ! 2) = ModelCapability.Tier (ModelCapabilities ! 3) \<and>
   ModelCapability.Model (ModelCapabilities ! 2) = ''grok-3'' \<and>
   ModelCapability.Model (ModelCapabilities ! 3) = ''sonnet'' \<and>
   CostPer1K (ModelCapabilities ! 3) < CostPer1K (ModelCapabilities ! 2)"
  by (simp add: ModelCapabilities_def)

section \<open>Properties of the router\<close>

lemma routeByModelTag_unregistered:
  assumes "map_of TierToBackend tag = Some (b, m)" "\<not> Has (registry r) b"
  shows "routeByModelTag r tag = findFallbackForTag r tag"
  using assms by (simp add: routeByModelTag_def)

lemma findFallbackForTag_None:
  "findFallbackForTag r tag = None \<longleftrightarrow>
     SelectModel (tagFallbackComplexity (tagFallbackIntent tag)) (tagFallbackIntent tag)
       (registry r) = None"
  by (simp add: findFallbackForTag_def Let_def split: option.split)

lemma ToLower_legacy: "t = ''haiku'' \<or> t = ''sonnet'' \<or> t = ''opus'' \<Longrightarrow> ToLower t = t"
  by (auto simp: ToLower_def lower_char_def)

lemma routeAnalyzed_ModelTag: "routeAnalyzed r (h\<lparr>ModelTag := t\<rparr>) i = routeAnalyzed r h i"
  by (simp add: routeAnalyzed_def cong: if_cong option.case_cong)

lemma routeFromTier_ModelTag: "routeFromTier r (h\<lparr>ModelTag := t\<rparr>) i = routeFromTier r h i"
  by (simp add: routeFromTier_def routeAnalyzed_ModelTag cong: if_cong option.case_cong)

lemma Route_enabled:
  assumes "Enabled (config r)"
  shows "Route r (Some h) =
     (case (if ModelTag h \<noteq> [] then routeByModelTag r (ModelTag h) else None) of
        Some result \<Rightarrow> result
      | None \<Rightarrow> routeFromTier r h
            (if ExtractIntent (Labels h) = IntentAuto \<and> Intent h \<noteq> [] then Intent h
             else ExtractIntent (Labels h)))"
  using assms by (simp add: Route_def Let_def)

text \<open>
  Claim C4.  With routing enabled, the two legacy hints behave differently when no
  model can be selected.  When the model tag maps through \<open>TierToBackend\<close> to a backend
  that is not registered and \<open>SelectModel\<close> finds no substitute among the registered
  backends, \<open>Route\<close> does not return at that step: its result is that of the remaining
  steps, the same as for the hints without the tag.  When the model-tag step has not
  returned, the tier hint is one of \<open>haiku\<close>, \<open>sonnet\<close>, \<open>opus\<close> (with the intent and
  minimum tier \<open>routeByLegacyTier\<close> gives it) and \<open>SelectModel\<close> finds no model, \<open>Route\<close>
  returns the CLI decision with the reason \<open>no API model available for tier: <tier>\<close>
  and goes no further.
\<close>

theorem Route_legacy_asymmetry:
  assumes "Enabled (config r)"
  shows
    "(map_of TierToBackend (ModelTag h) = Some (b, m) \<and> \<not> Has (registry r) b \<and>
      SelectModel (tagFallbackComplexity (tagFallbackIntent (ModelTag h)))
        (tagFallbackIntent (ModelTag h)) (registry r) = None \<longrightarrow>
        Route r (Some h) = Route r (Some (h\<lparr>ModelTag := []\<rparr>)) \<and>
        Route r (Some h) =
          routeFromTier r h
            (if ExtractIntent (Labels h) = IntentAuto \<and> Intent h \<noteq> [] then Intent h
             else ExtractIntent (Labels h))) \<and>
     ((ModelTag h = [] \<or> routeByModelTag r (ModelTag h) = None) \<and>
      RoutingHints.Tier h \<in> {''haiku'', ''sonnet'', ''opus''} \<and>
      legacyTierPlan (RoutingHints.Tier h) = Some (intent, minTier) \<and>
      SelectModel \<lparr>Score = 0, MinTier = minTier, RequiresToolUse = False, Signals = []\<rparr>
        intent (registry r) = None \<longrightarrow>
        Route r (Some h) =
          \<lparr>Decision = RouteCLI, Backend = [], Model = [],
           Reason = ''no API model available for tier: '' @ RoutingHints.Tier h,
           FallbackToCLI = False\<rparr>)"
proof (intro conjI impI)
  assume a: "map_of TierToBackend (ModelTag h) = Some (b, m) \<and> \<not> Has (registry r) b \<and>
      SelectModel (tagFallbackComplexity (tagFallbackIntent (ModelTag h)))
        (tagFallbackIntent (ModelTag h)) (registry r) = None"
  then have "routeByModelTag r (ModelTag h) = None"
    using routeByModelTag_unregistered [of "ModelTag h" b m r]
    by (simp add: findFallbackForTag_None)
  then show "Route r (Some h) =
          routeFromTier r h
            (if ExtractIntent (Labels h) = IntentAuto \<and> Intent h \<noteq> [] then Intent h
             else ExtractIntent (Labels h))"
    by (simp add: Route_enabled [OF assms])
  moreover have "Route r (Some (h\<lparr>ModelTag := []\<rparr>)) =
          routeFromTier r h
            (if ExtractIntent (Labels h) = IntentAuto \<and> Intent h \<noteq> [] then Intent h
             else ExtractIntent (Labels h))"
    by (simp add: Route_enabled [OF assms] routeFromTier_ModelTag)
  ultimately show "Route r (Some h) = Route r (Some (h\<lparr>ModelTag := []\<rparr>))" by simp
next
  assume a: "(ModelTag h = [] \<or> routeByModelTag r (ModelTag h) = None) \<and>
      RoutingHints.Tier h \<in> {''haiku'', ''sonnet'', ''opus''} \<and>
      legacyTierPlan (RoutingHints.Tier h) = Some (intent, minTier) \<and>
      SelectModel \<lparr>Score = 0, MinTier = minTier, RequiresToolUse = False, Signals = []\<rparr>
        intent (registry r) = None"
  then have plan: "legacyTierPlan (RoutingHints.Tier h) = Some (intent, minTier)" by simp
  then have t: "RoutingHints.Tier h = ''haiku'' \<or> RoutingHints.Tier h = ''sonnet'' \<or>
                RoutingHints.Tier h = ''opus''"
    by (auto simp: legacyTierPlan_def split: if_splits)
  then have low: "ToLower (RoutingHints.Tier h) = RoutingHints.Tier h" by (rule ToLower_legacy)
  have ne: "RoutingHints.Tier h \<noteq> []" using t by auto
  have "routeByLegacyTier r (RoutingHints.Tier h) =
          Some \<lparr>Decision = RouteCLI, Backend = [], Model = [],
           Reason = ''no API model available for tier: '' @ RoutingHints.Tier h,
           FallbackToCLI = False\<rparr>"
    using a plan by (simp add: routeByLegacyTier_def Let_def low)
  then have "routeFromTier r h i =
          \<lparr>Decision = RouteCLI, Backend = [], Model = [],
           Reason = ''no API model available for tier: '' @ RoutingHints.Tier h,
           FallbackToCLI = False\<rparr>" for i
    using ne by (simp add: routeFromTier_def)
  moreover have "Route r (Some h) = routeFromTier r h
            (if ExtractIntent (Labels h) = IntentAuto \<and> Intent h \<noteq> [] then Intent h
             else ExtractIntent (Labels h))"
    using a by (auto simp add: Route_enabled [OF assms])
  ultimately show "Route r (Some h) =
          \<lparr>Decision = RouteCLI, Backend = [], Model = [],
           Reason = ''no API model available for tier: '' @ RoutingHints.Tier h,
           FallbackToCLI = False\<rparr>" by simp
qed

text \<open>
  Only \<open>grok\<close> is registered.  The tag \<open>opus\<close> names \<open>bedrock\<close> and has no substitute
  of the Complex tier, so the task is analysed and routed to an API model; the tier
  hint \<open>opus\<close> ends in the CLI decision.
\<close>

theorem Route_legacy_asymmetry_witness:
  "Route \<lparr>config = \<lparr>Enabled = True, DefaultRoute = RouteCLI, DefaultBackend = ''bedrock'',
            DefaultModel = ''haiku'', CostThreshold = 0.5, TokenThreshold = 50000,
            FallbackToCLI = True\<rparr>, registry = [''grok'']\<rparr>
     (Some (emptyHints\<lparr>Title := ''Summarize'', ModelTag := ''opus''\<rparr>)) =
   \<lparr>Decision = RouteAPI, Backend = ''grok'', Model = ''grok-3-mini'',
    Reason = ''complexity=simple, selected=grok/grok-3-mini'', FallbackToCLI = True\<rparr> \<and>
   Route \<lparr>config = \<lparr>Enabled = True, DefaultRoute = RouteCLI, DefaultBackend = ''bedrock'',
            DefaultModel = ''haiku'', CostThreshold = 0.5, TokenThreshold = 50000,
            FallbackToCLI = True\<rparr>, registry = [''grok'']\<rparr>
     (Some (emptyHints\<lparr>Title := ''Summarize'', Tier := ''opus''\<rparr>)) =
   \<lparr>Decision = RouteCLI, Backend = [], Model = [],
    Reason = ''no API model available for tier: opus'', FallbackToCLI = False\<rparr>"
proof -
  let ?r = "\<lparr>config = \<lparr>Enabled = True, DefaultRoute = RouteCLI, DefaultBackend = ''bedrock'',
            DefaultModel = ''haiku'', CostThreshold = 0.5, TokenThreshold = 50000,
            FallbackToCLI = True\<rparr>, registry = [''grok'']\<rparr>"
  let ?h1 = "emptyHints\<lparr>Title := ''Summarize'', ModelTag := ''opus''\<rparr>"
  let ?h2 = "emptyHints\<lparr>Title := ''Summarize'', Tier := ''opus''\<rparr>"
  have en: "Enabled (config ?r)" by simp
  have p1: "map_of TierToBackend (ModelTag ?h1) = Some (''bedrock'', ''opus'') \<and>
      \<not> Has (registry ?r) ''bedrock'' \<and>
      SelectModel (tagFallbackComplexity (tagFallbackIntent (ModelTag ?h1)))
        (tagFallbackIntent (ModelTag ?h1)) (registry ?r) = None"
    by code_simp
  have p2: "(ModelTag ?h2 = [] \<or> routeByModelTag ?r (ModelTag ?h2) = None) \<and>
      RoutingHints.Tier ?h2 \<in> {''haiku'', ''sonnet'', ''opus''} \<and>
      legacyTierPlan (RoutingHints.Tier ?h2) = Some (IntentQuality, TierComplex) \<and>
      SelectModel \<lparr>Score = 0, MinTier = TierComplex, RequiresToolUse = False, Signals = []\<rparr>
        IntentQuality (registry ?r) = None"
    by code_simp
  have rest: "Route ?r (Some (?h1\<lparr>ModelTag := []\<rparr>)) =
     \<lparr>Decision = RouteAPI, Backend = ''grok'', Model = ''grok-3-mini'',
      Reason = ''complexity=simple, selected=grok/grok-3-mini'', FallbackToCLI = True\<rparr>"
    by code_simp
  have t2: "RoutingHints.Tier ?h2 = ''opus''" by (simp add: emptyHints_def)
  from Route_legacy_asymmetry [OF en, of ?h1 "''bedrock''" "''opus''" IntentQuality TierComplex] p1
  have c1: "Route ?r (Some ?h1) = Route ?r (Some (?h1\<lparr>ModelTag := []\<rparr>))" by blast
  from Route_legacy_asymmetry [OF en, of ?h2 "''bedrock''" "''opus''" IntentQuality TierComplex] p2
  have c2: "Route ?r (Some ?h2) =
     \<lparr>Decision = RouteCLI, Backend = [], Model = [],
      Reason = ''no API model available for tier: '' @ RoutingHints.Tier ?h2,
      FallbackToCLI = False\<rparr>" by blast
  from c1 rest c2 t2 show ?thesis by simp
qed


section \<open>Properties of the context manager\<close>

lemma estimateMessageTokens_ge: "2 \<le> estimateMessageTokens m"
  by (simp add: estimateMessageTokens_def Let_def)

lemma estimateTokens_nonneg: "0 \<le> estimateTokens ms"
proof (induction ms)
  case Nil
  then show ?case by simp
next
  case (Cons a ms)
  with estimateMessageTokens_ge [of a] show ?case by simp
qed

lemma estimateTokens_nonempty: "ms \<noteq> [] \<Longrightarrow> 2 \<le> estimateTokens ms"
proof (cases ms)
  case Nil
  assume "ms \<noteq> []"
  with Nil show ?thesis by simp
next
  case (Cons a rest)
  with estimateMessageTokens_ge [of a] estimateTokens_nonneg [of rest] show ?thesis by simp
qed

text \<open>
  Claim C5.  For a non-empty message list whose token estimate is at most
  \<open>maxTokens - ReserveTokens\<close>, \<open>PrepareContext\<close> returns the input itself and no
  error, whatever the strategy.  (A non-empty list has an estimate of at least 2, so
  the budget is positive and the reserve check passes.)
\<close>

theorem PrepareContext_fits_unchanged:
  assumes "messages \<noteq> []"
    and "estimateTokens messages \<le> maxTokens - ReserveTokens cm"
  shows "PrepareContext cm messages maxTokens strategy = Inr messages"
proof -
  from assms(1) have "2 \<le> estimateTokens messages" by (rule estimateTokens_nonempty)
  with assms(2) have "0 < maxTokens - ReserveTokens cm" by simp
  with assms show ?thesis by (simp add: PrepareContext_def Let_def)
qed

text \<open>Scenario 4 of the specification: a system and a user message under 10000 tokens.\<close>

theorem PrepareContext_fits_unchanged_witness:
  "PrepareContext NewContextManager
     [\<lparr>Role = ''system'', Content = ''S''\<rparr>, \<lparr>Role = ''user'', Content = ''hi''\<rparr>]
     10000 TruncateOldest =
   Inr [\<lparr>Role = ''system'', Content = ''S''\<rparr>, \<lparr>Role = ''user'', Content = ''hi''\<rparr>]"
proof -
  have "estimateTokens [\<lparr>Role = ''system'', Content = ''S''\<rparr>, \<lparr>Role = ''user'', Content = ''hi''\<rparr>]
          \<le> 10000 - ReserveTokens NewContextManager"
    by code_simp
  then show ?thesis
    by (rule PrepareContext_fits_unchanged [rotated]) simp
qed

text \<open>
  Claim C10.  For the empty list \<open>PrepareContext\<close> returns the empty list and no error
  for every \<open>maxTokens\<close> and strategy; a non-empty list with
  \<open>maxTokens \<le> ReserveTokens\<close> gets the error of the reserve check instead.
\<close>

theorem PrepareContext_empty:
  "PrepareContext cm [] maxTokens strategy = Inr [] \<and>
   (messages \<noteq> [] \<and> maxTokens \<le> ReserveTokens cm \<longrightarrow>
      PrepareContext cm messages maxTokens strategy =
        Inl (ReserveTooLarge maxTokens (ReserveTokens cm)))"
  by (simp add: PrepareContext_def Let_def)

text \<open>With the default reserve of 4096 and \<open>maxTokens = 100\<close>.\<close>

theorem PrepareContext_empty_witness:
  "PrepareContext NewContextManager [] 100 TruncateMiddle = Inr [] \<and>
   PrepareContext NewContextManager [\<lparr>Role = ''user'', Content = ''hi''\<rparr>] 100 TruncateMiddle =
     Inl (ReserveTooLarge 100 4096)"
proof -
  have "[\<lparr>Role = ''user'', Content = ''hi''\<rparr>] \<noteq> [] \<and> 100 \<le> ReserveTokens NewContextManager"
    by (simp add: NewContextManager_def)
  with PrepareContext_empty [of NewContextManager 100 TruncateMiddle
         "[\<lparr>Role = ''user'', Content = ''hi''\<rparr>]"]
  show ?thesis by (simp add: NewContextManager_def)
qed

lemma truncateMessage_role: "truncateMessage m n = Inr r \<Longrightarrow> Role r = Role m"
  by (auto simp: truncateMessage_def Let_def split: if_splits)

lemma truncateMessage_ok: "0 < n \<Longrightarrow> \<exists>r. truncateMessage m n = Inr r"
  by (auto simp: truncateMessage_def Let_def)

lemma truncateOldest_system:
  assumes "isSystem m" "0 < n"
  shows "\<exists>r rs. truncateOldest (m # rest) n = Inr (r # rs) \<and> isSystem r \<and>
           (r = m \<or> (n \<le> estimateMessageTokens m \<and> rs = [] \<and> truncateMessage m n = Inr r))"
proof (cases "length (m # rest) < 2")
  case True
  then show ?thesis using assms by (simp add: truncateOldest_def)
next
  case False
  show ?thesis
  proof (cases "n - estimateMessageTokens m \<le> 0")
    case True
    from truncateMessage_ok [OF assms(2)] obtain r where r: "truncateMessage m n = Inr r" by blast
    then have "isSystem r" using assms(1) truncateMessage_role [OF r] by (simp add: isSystem_def)
    with r True False assms show ?thesis
      by (simp add: truncateOldest_def splitSystem_def Let_def)
  next
    case gt: False
    with False assms show ?thesis
      by (simp add: truncateOldest_def splitSystem_def Let_def prependSystem_def)
  qed
qed

lemma truncateMiddle_system:
  assumes "isSystem m"
  shows "\<exists>rs. truncateMiddle (m # rest) n = Inr (m # rs)"
  using assms
  by (simp add: truncateMiddle_def splitSystem_def Let_def prependSystem_def)

lemma findLongest_not_system:
  "findLongest msgs i idx len = Some k \<Longrightarrow>
     idx = Some k \<or> (\<exists>j. k = i + j \<and> j < length msgs \<and> \<not> isSystem (msgs ! j))"
proof (induction msgs arbitrary: i idx len)
  case Nil
  then show ?case by simp
next
  case (Cons m ms)
  show ?case
  proof (cases "isSystem m")
    case True
    with Cons.prems have "findLongest ms (i + 1) idx len = Some k" by simp
    from Cons.IH [OF this] show ?thesis
      by (auto intro: exI [of _ "Suc j" for j])
  next
    case False
    show ?thesis
    proof (cases "length (Message.Content m) > len")
      case True
      with False Cons.prems
      have "findLongest ms (i + 1) (Some i) (length (Message.Content m)) = Some k" by simp
      from Cons.IH [OF this] False show ?thesis
        by (auto intro: exI [of _ "Suc j" for j] exI [of _ 0])
    next
      case nle: False
      with False Cons.prems have "findLongest ms (i + 1) idx len = Some k" by simp
      from Cons.IH [OF this] show ?thesis
        by (auto simp: nth_Cons split: nat.split)
    qed
  qed
qed

lemma longestLoop_system:
  "isSystem m \<Longrightarrow> \<exists>rs. longestLoop (m # rest) n = m # rs"
proof (induction "m # rest" n arbitrary: rest rule: longestLoop.induct)
  case (1 maxTokens)
  show ?case
  proof (cases "estimateTokens (m # rest) > maxTokens \<and> length (m # rest) > 1")
    case False
    then show ?thesis by (subst longestLoop.simps) auto
  next
    case True
    show ?thesis
    proof (cases "findLongest (m # rest) 0 None 0")
      case None
      with True show ?thesis by (subst longestLoop.simps) auto
    next
      case (Some k)
      from findLongest_not_system [OF Some] "1.prems"
      have k: "0 < k" "k < length (m # rest)"
        by (auto simp: nth_Cons split: nat.splits)
      then obtain j where j: "k = Suc j" by (cases k) auto
      have eq: "take k (m # rest) @ drop (k + 1) (m # rest) = m # (take j rest @ drop (Suc j) rest)"
        using j by simp
      from "1.hyps" [OF True Some eq "1.prems"]
      obtain rs where "longestLoop (m # (take j rest @ drop (Suc j) rest)) maxTokens = m # rs"
        by blast
      with True Some eq show ?thesis
        by (subst longestLoop.simps) (simp del: longestLoop.simps)
    qed
  qed
qed
lemma PrepareContext_dispatch:
  assumes "messages \<noteq> []" "0 < maxTokens - ReserveTokens cm"
    and "estimateTokens messages > maxTokens - ReserveTokens cm"
  shows "PrepareContext cm messages maxTokens strategy =
     (let s = (if strategy = [] then DefaultStrategy cm else strategy);
          n = maxTokens - ReserveTokens cm
      in if s = TruncateOldest then truncateOldest messages n
         else if s = TruncateMiddle then truncateMiddle messages n
         else if s = TruncateLongest then truncateLongest messages n
         else truncateOldest messages n)"
  using assms by (simp add: PrepareContext_def Let_def)

text \<open>
  Claim C8.  Let the first message \<open>m\<close> of the input have the role \<open>system\<close> and let
  the budget \<open>maxTokens - ReserveTokens\<close> be positive, as it is whenever \<open>PrepareContext\<close>
  reaches a strategy.  Then each of the three strategies returns, without error, a
  list whose first message has the role \<open>system\<close>: \<open>truncateMiddle\<close> and
  \<open>truncateLongest\<close> keep \<open>m\<close> itself, and \<open>truncateOldest\<close> keeps \<open>m\<close> itself unless the
  estimate of \<open>m\<close> alone reaches the budget, in which case the result is the single
  message \<open>truncateMessage\<close> makes of \<open>m\<close>.  The same holds of \<open>PrepareContext\<close> for every
  strategy name.  Nothing is assumed about the roles of the other messages.
\<close>

theorem system_message_survives_truncation:
  assumes "isSystem m" and "0 < maxTokens - ReserveTokens cm"
  shows
    "(\<exists>r rs. truncateOldest (m # rest) (maxTokens - ReserveTokens cm) = Inr (r # rs) \<and>
        isSystem r \<and>
        (r = m \<or>
         (maxTokens - ReserveTokens cm \<le> estimateMessageTokens m \<and> rs = [] \<and>
          truncateMessage m (maxTokens - ReserveTokens cm) = Inr r))) \<and>
     (\<exists>rs. truncateMiddle (m # rest) (maxTokens - ReserveTokens cm) = Inr (m # rs)) \<and>
     (\<exists>rs. truncateLongest (m # rest) (maxTokens - ReserveTokens cm) = Inr (m # rs)) \<and>
     (\<exists>r rs. PrepareContext cm (m # rest) maxTokens strategy = Inr (r # rs) \<and> isSystem r)"
proof -
  let ?n = "maxTokens - ReserveTokens cm"
  have old: "\<exists>r rs. truncateOldest (m # rest) ?n = Inr (r # rs) \<and> isSystem r \<and>
        (r = m \<or> (?n \<le> estimateMessageTokens m \<and> rs = [] \<and> truncateMessage m ?n = Inr r))"
    using assms by (rule truncateOldest_system)
  have mid: "\<exists>rs. truncateMiddle (m # rest) ?n = Inr (m # rs)"
    using assms(1) by (rule truncateMiddle_system)
  have lon: "\<exists>rs. truncateLongest (m # rest) ?n = Inr (m # rs)"
    using longestLoop_system [OF assms(1)] by (simp add: truncateLongest_def)
  have pc: "\<exists>r rs. PrepareContext cm (m # rest) maxTokens strategy = Inr (r # rs) \<and> isSystem r"
  proof (cases "estimateTokens (m # rest) \<le> ?n")
    case True
    then have "PrepareContext cm (m # rest) maxTokens strategy = Inr (m # rest)"
      using assms(2) by (simp add: PrepareContext_def Let_def)
    with assms(1) show ?thesis by blast
  next
    case False
    then have gt: "estimateTokens (m # rest) > ?n" by simp
    have ne: "m # rest \<noteq> []" by simp
    note d = PrepareContext_dispatch [OF ne assms(2) gt, of strategy]
    from old obtain r rs where o: "truncateOldest (m # rest) ?n = Inr (r # rs)" "isSystem r"
      by blast
    from mid obtain rs' where mi: "truncateMiddle (m # rest) ?n = Inr (m # rs')" by blast
    from lon obtain rs'' where lo: "truncateLongest (m # rest) ?n = Inr (m # rs'')" by blast
    from o mi lo assms(1) show ?thesis
      unfolding d Let_def by auto
  qed
  from old mid lon pc show ?thesis by blast
qed

text \<open>
  With a budget of 2 tokens the system message alone is too large: \<open>truncateOldest\<close>
  shrinks it to 8 bytes, \<open>truncateLongest\<close> keeps it whole.
\<close>

theorem system_message_survives_truncation_witness:
  "isSystem \<lparr>Role = ''system'', Content = ''You are a helpful assistant''\<rparr> \<and>
   0 < 4098 - ReserveTokens NewContextManager \<and>
   truncateOldest
     [\<lparr>Role = ''system'', Content = ''You are a helpful assistant''\<rparr>,
      \<lparr>Role = ''user'', Content = ''hi''\<rparr>] (4098 - ReserveTokens NewContextManager) =
     Inr [\<lparr>Role = ''system'', Content = ''You a...''\<rparr>] \<and>
   (\<exists>rs. truncateLongest
     [\<lparr>Role = ''system'', Content = ''You are a helpful assistant''\<rparr>,
      \<lparr>Role = ''user'', Content = ''hi''\<rparr>] (4098 - ReserveTokens NewContextManager) =
     Inr (\<lparr>Role = ''system'', Content = ''You are a helpful assistant''\<rparr> # rs))"
proof -
  let ?m = "\<lparr>Role = ''system'', Content = ''You are a helpful assistant''\<rparr>"
  have a: "isSystem ?m" by (simp add: isSystem_def)
  have b: "0 < 4098 - ReserveTokens NewContextManager" by (simp add: NewContextManager_def)
  have c: "truncateOldest [?m, \<lparr>Role = ''user'', Content = ''hi''\<rparr>]
             (4098 - ReserveTokens NewContextManager) =
           Inr [\<lparr>Role = ''system'', Content = ''You a...''\<rparr>]"
    by code_simp
  from system_message_survives_truncation [OF a b, of "[\<lparr>Role = ''user'', Content = ''hi''\<rparr>]"]
  have "\<exists>rs. truncateLongest [?m, \<lparr>Role = ''user'', Content = ''hi''\<rparr>]
             (4098 - ReserveTokens NewContextManager) = Inr (?m # rs)"
    by blast
  with a b c show ?thesis by blast
qed









text \<open>
  The search for the longest message starts from length 0 and wants a strictly longer
  content, so non-system messages with an empty content are never chosen; the
  amended claim says nothing about them.  Here the estimate is 10 and the budget 4.
\<close>

lemma truncateLongest_keeps_empty_messages:
  "PrepareContext NewContextManager
     [\<lparr>Role = ''system'', Content = ''S''\<rparr>, \<lparr>Role = ''user'', Content = []\<rparr>,
      \<lparr>Role = ''assistant'', Content = []\<rparr>] 4100 TruncateLongest =
   Inr [\<lparr>Role = ''system'', Content = ''S''\<rparr>, \<lparr>Role = ''user'', Content = []\<rparr>,
        \<lparr>Role = ''assistant'', Content = []\<rparr>]"
  by code_simp

section \<open>Properties of the cost tracker\<close>

lemma summarize_append:
  "summarize (es @ [e]) summary = addEntry e (summarize es summary)"
  by (induction es arbitrary: summary) auto

lemma summaryAt_addEntry_same:
  "Invocations (summaryAt (addEntry e summary) (CostEntry.Backend e)) =
   Invocations (summaryAt summary (CostEntry.Backend e)) + 1"
  by (simp add: addEntry_def summaryAt_def Let_def)

lemma summaryAt_addEntry_other:
  "b \<noteq> CostEntry.Backend e \<Longrightarrow> summaryAt (addEntry e summary) b = summaryAt summary b"
  by (simp add: addEntry_def summaryAt_def Let_def)

text \<open>
  Claim C9.  For every tracker state and every call of \<open>Record\<close>, \<open>Total()\<close> after the
  call is \<open>Total()\<close> before it plus \<open>cost.TotalCost\<close>, and \<open>Summary()[backend].Invocations\<close>
  after it is its value before plus 1; after \<open>Reset\<close>, \<open>Total()\<close> is 0 and
  \<open>Entries()\<close> is empty.
\<close>

theorem Record_Total_Summary_Reset:
  "Total (Record ct now backend model result cost) = Total ct + CostEstimate.TotalCost cost \<and>
   Invocations (summaryAt (Summary (Record ct now backend model result cost)) backend) =
     Invocations (summaryAt (Summary ct) backend) + 1 \<and>
   Total (Reset ct) = 0 \<and> Entries (Reset ct) = []"
proof -
  have "Summary (Record ct now backend model result cost) =
        addEntry \<lparr>Timestamp = now, Backend = backend, Model = model,
                   InputTokens = InvokeResult.InputTokens result,
                   OutputTokens = InvokeResult.OutputTokens result,
                   Cost = cost\<rparr> (Summary ct)"
    by (simp add: Summary_def Record_def Let_def summarize_append)
  then have "Invocations (summaryAt (Summary (Record ct now backend model result cost)) backend) =
     Invocations (summaryAt (Summary ct) backend) + 1"
    using summaryAt_addEntry_same
      [of "\<lparr>Timestamp = now, Backend = backend, Model = model,
                   InputTokens = InvokeResult.InputTokens result,
                   OutputTokens = InvokeResult.OutputTokens result,
                   Cost = cost\<rparr>" "Summary ct"]
    by simp
  then show ?thesis
    by (simp add: Total_def Entries_def Record_def Reset_def Let_def)
qed

text \<open>The summaries of the other backends do not change.\<close>

lemma Record_other_backend:
  "b \<noteq> backend \<Longrightarrow>
   summaryAt (Summary (Record ct now backend model result cost)) b = summaryAt (Summary ct) b"
  by (simp add: Summary_def Record_def Let_def summarize_append summaryAt_addEntry_other)

text \<open>One recorded call on a new tracker.\<close>

theorem Record_Total_Summary_Reset_witness:
  "Total (Record NewCostTracker 0 ''bedrock'' ''haiku''
            \<lparr>Content = ''ok'', Model = ''haiku'', InputTokens = 1000, OutputTokens = 250,
             FinishReason = ''stop''\<rparr>
            \<lparr>InputCost = 0.001, OutputCost = 0.002, TotalCost = 0.003, Currency = ''USD'',
             Model = ''haiku''\<rparr>) = 0.003 \<and>
   Invocations (summaryAt (Summary (Record NewCostTracker 0 ''bedrock'' ''haiku''
            \<lparr>Content = ''ok'', Model = ''haiku'', InputTokens = 1000, OutputTokens = 250,
             FinishReason = ''stop''\<rparr>
            \<lparr>InputCost = 0.001, OutputCost = 0.002, TotalCost = 0.003, Currency = ''USD'',
             Model = ''haiku''\<rparr>)) ''bedrock'') = 1"
proof -
  have t: "Total NewCostTracker = 0" by (simp add: Total_def NewCostTracker_def)
  have i: "Invocations (summaryAt (Summary NewCostTracker) ''bedrock'') = 0"
    by (simp add: Summary_def NewCostTracker_def summaryAt_def zeroSummary_def)
  from Record_Total_Summary_Reset [of NewCostTracker 0 "''bedrock''" "''haiku''"
         "\<lparr>Content = ''ok'', Model = ''haiku'', InputTokens = 1000, OutputTokens = 250,
             FinishReason = ''stop''\<rparr>"
         "\<lparr>InputCost = 0.001, OutputCost = 0.002, TotalCost = 0.003, Currency = ''USD'',
             Model = ''haiku''\<rparr>"] t i
  show ?thesis by simp
qed


end
